theory Spec2Isabelle
  imports Main
begin

section \<open>Python values used by \<open>bts_tools/views.py\<close>\<close>

text \<open>
  The views receive parsed JSON (the result of \<open>json.loads\<close>) and format values into
  messages. JSON numbers are modelled as integers (floating point numbers are left out) and
  strings as lists of 8-bit characters.
\<close>

datatype json =
    JNull
  | JBool bool
  | JInt int
  | JStr string
  | JList "json list"
  | JObj "(string \<times> json) list"

text \<open>
  The exceptions that can travel through the views. \<open>ValueError\<close> and \<open>RPCError\<close> carry
  their message (\<open>str(e)\<close>); \<open>OtherException\<close> stands for every exception class that is
  neither of the others nor one of their subclasses (a connection error of the transport, an
  authorisation error, ...).
\<close>

datatype exn =
    KeyError
  | IndexError
  | TypeError
  | AttributeError
  | ValueError string
  | RPCError string
  | OtherException string

subsection \<open>Formatting: \<open>'{}'.format(v)\<close>\<close>

definition digit_char :: "nat \<Rightarrow> char" where
  "digit_char d = ''0123456789abcdef'' ! d"

function str_nat :: "nat \<Rightarrow> string" where
  "str_nat n = (if n < 10 then [digit_char n] else str_nat (n div 10) @ [digit_char (n mod 10)])"
  by pat_completeness auto
termination
  by (relation "measure id") auto

declare str_nat.simps [simp del]

definition str_int :: "int \<Rightarrow> string" where
  "str_int i = (if i < 0 then CHR ''-'' # str_nat (nat (- i)) else str_nat (nat i))"

text \<open>\<open>repr\<close> of a string: Python quotes with \<open>'\<close> unless the string holds a \<open>'\<close> and no \<open>"\<close>.\<close>

definition repr_quote :: "string \<Rightarrow> char" where
  "repr_quote s = (if CHR 0x27 \<in> set s \<and> CHR 0x22 \<notin> set s then CHR 0x22 else CHR 0x27)"

definition repr_char :: "char \<Rightarrow> char \<Rightarrow> string" where
  "repr_char q ch =
     (if ch = CHR 0x5C then [CHR 0x5C, CHR 0x5C]
      else if ch = q then [CHR 0x5C, q]
      else if ch = CHR 0x0A then [CHR 0x5C, CHR ''n'']
      else if ch = CHR 0x0D then [CHR 0x5C, CHR ''r'']
      else if ch = CHR 0x09 then [CHR 0x5C, CHR ''t'']
      else if (of_char ch :: nat) < 32 \<or> (of_char ch :: nat) = 127
        then [CHR 0x5C, CHR ''x'', digit_char (of_char ch div 16), digit_char (of_char ch mod 16)]
      else [ch])"

definition repr_str :: "string \<Rightarrow> string" where
  "repr_str s = (let q = repr_quote s in [q] @ concat (map (repr_char q) s) @ [q])"

definition join_comma :: "string list \<Rightarrow> string" where
  "join_comma xs = (case xs of [] \<Rightarrow> [] | y # ys \<Rightarrow> y @ concat (map (\<lambda>z. '', '' @ z) ys))"

fun py_repr :: "json \<Rightarrow> string" where
  "py_repr JNull = ''None''"
| "py_repr (JBool b) = (if b then ''True'' else ''False'')"
| "py_repr (JInt i) = str_int i"
| "py_repr (JStr s) = repr_str s"
| "py_repr (JList xs) = ''['' @ join_comma (map py_repr xs) @ '']''"
| "py_repr (JObj kvs) =
     ''{'' @ join_comma (map (\<lambda>kv. repr_str (fst kv) @ '': '' @ py_repr (snd kv)) kvs) @ ''}''"

text \<open>\<open>str(v)\<close>, which is what \<open>'{}'.format(v)\<close> inserts: a string as it is, the rest as \<open>repr\<close>.\<close>

definition py_str :: "json \<Rightarrow> string" where
  "py_str v = (case v of JStr s \<Rightarrow> s | _ \<Rightarrow> py_repr v)"

subsection \<open>Dictionaries, indexing, unpacking\<close>

text \<open>\<open>d[k]\<close> on a dictionary: \<open>KeyError\<close> when the key is absent.\<close>

definition dict_get :: "(string \<times> json) list \<Rightarrow> string \<Rightarrow> exn + json" where
  "dict_get d k = (case map_of d k of None \<Rightarrow> Inl KeyError | Some v \<Rightarrow> Inr v)"

text \<open>\<open>d.pop(k, default)\<close>: the value (or the default) and the dictionary without the key.\<close>

definition dict_pop :: "(string \<times> json) list \<Rightarrow> string \<Rightarrow> json \<Rightarrow> json \<times> (string \<times> json) list" where
  "dict_pop d k dflt =
     ((case map_of d k of None \<Rightarrow> dflt | Some v \<Rightarrow> v), filter (\<lambda>kv. fst kv \<noteq> k) d)"

text \<open>\<open>d[k] = v\<close>: an existing key keeps its place and gets the new value, a new key goes last.\<close>

definition dict_set :: "(string \<times> json) list \<Rightarrow> string \<Rightarrow> json \<Rightarrow> (string \<times> json) list" where
  "dict_set d k v =
     (if k \<in> fst ` set d then map (\<lambda>kv. if fst kv = k then (k, v) else kv) d else d @ [(k, v)])"

text \<open>\<open>v[k]\<close> with a string key, on any parsed JSON value.\<close>

definition py_getitem_key :: "json \<Rightarrow> string \<Rightarrow> exn + json" where
  "py_getitem_key v k = (case v of JObj d \<Rightarrow> dict_get d k | _ \<Rightarrow> Inl TypeError)"

text \<open>
  \<open>v[i]\<close> with a non-negative integer index: a list gives its element, a string the
  one-character string, a dictionary (whose keys are strings) has no such key.
\<close>

definition py_getitem_idx :: "json \<Rightarrow> nat \<Rightarrow> exn + json" where
  "py_getitem_idx v i =
     (case v of
        JList xs \<Rightarrow> (if i < length xs then Inr (xs ! i) else Inl IndexError)
      | JStr s \<Rightarrow> (if i < length s then Inr (JStr [s ! i]) else Inl IndexError)
      | JObj d \<Rightarrow> Inl KeyError
      | _ \<Rightarrow> Inl TypeError)"

text \<open>\<open>v[k] = x\<close> with a string key: only a dictionary accepts it.\<close>

definition py_setitem_key :: "json \<Rightarrow> string \<Rightarrow> json \<Rightarrow> exn + json" where
  "py_setitem_key v k x = (case v of JObj d \<Rightarrow> Inr (JObj (dict_set d k x)) | _ \<Rightarrow> Inl TypeError)"

text \<open>\<open>*v\<close> in a call: the elements of a list, the characters of a string, the keys of a
  dictionary; anything else is not iterable.\<close>

definition py_unpack :: "json \<Rightarrow> exn + json list" where
  "py_unpack v =
     (case v of
        JList xs \<Rightarrow> Inr xs
      | JStr s \<Rightarrow> Inr (map (\<lambda>ch. JStr [ch]) s)
      | JObj d \<Rightarrow> Inr (map (\<lambda>kv. JStr (fst kv)) d)
      | _ \<Rightarrow> Inl TypeError)"

text \<open>\<open>n == v\<close> for an integer \<open>n\<close>: Python's \<open>True\<close> and \<open>False\<close> compare as 1 and 0.\<close>

definition py_eq_int :: "int \<Rightarrow> json \<Rightarrow> bool" where
  "py_eq_int n v =
     (case v of JInt i \<Rightarrow> n = i | JBool b \<Rightarrow> n = (if b then 1 else 0) | _ \<Rightarrow> False)"

section \<open>The node registry\<close>

text \<open>
  The node class lives in \<open>rpcutils\<close>; the views read the fields below. \<open>node_bts_type\<close> and
  \<open>node_is_localhost\<close> are the results of the methods \<open>bts_type()\<close> and \<open>is_localhost()\<close>;
  \<open>node_attr\<close> is \<open>getattr(node, name)\<close> for the methods a node answers itself, applied to
  the unpacked arguments.
\<close>

record node =
  node_bts_type :: string
  rpc_host :: string
  rpc_port :: int
  name :: string
  rpc_user :: string
  rpc_password :: string
  node_is_localhost :: bool
  node_attr :: "string \<Rightarrow> (json list \<Rightarrow> exn + json) option"

definition find_node_match :: "string \<Rightarrow> string \<Rightarrow> string \<Rightarrow> node \<Rightarrow> bool" where
  "find_node_match bts_type host nm n \<longleftrightarrow>
     node_bts_type n = bts_type \<and> rpc_host n @ '':'' @ str_int (rpc_port n) = host \<and> name n = nm"

fun find_node_loop :: "node list \<Rightarrow> string \<Rightarrow> string \<Rightarrow> string \<Rightarrow> node option" where
  "find_node_loop [] bts_type host nm = None"
| "find_node_loop (n # ns) bts_type host nm =
     (if find_node_match bts_type host nm n then Some n else find_node_loop ns bts_type host nm)"

definition find_node :: "node list \<Rightarrow> string \<Rightarrow> string \<Rightarrow> string \<Rightarrow> exn + node" where
  "find_node nodes bts_type host nm =
     (case find_node_loop nodes bts_type host nm of
        Some n \<Rightarrow> Inr n
      | None \<Rightarrow> Inl (ValueError (''Node not found: '' @ bts_type @ ''/'' @ host @ ''/'' @ nm)))"

definition find_local_match :: "json \<Rightarrow> node \<Rightarrow> bool" where
  "find_local_match port n \<longleftrightarrow> node_is_localhost n \<and> py_eq_int (rpc_port n) port"

fun find_local_loop :: "node list \<Rightarrow> json \<Rightarrow> node option" where
  "find_local_loop [] port = None"
| "find_local_loop (n # ns) port =
     (if find_local_match port n then Some n else find_local_loop ns port)"

definition find_local_node :: "node list \<Rightarrow> json \<Rightarrow> exn + node" where
  "find_local_node nodes port =
     (case find_local_loop nodes port of
        Some n \<Rightarrow> Inr n
      | None \<Rightarrow> Inl (ValueError (''Node not found: localhost:'' @ py_str port)))"

text \<open>
  \<open>set_rpchost\<close> assigns the module variable \<open>rpc.main_node\<close> and redirects to \<open>url\<close>. The
  state is the registry: the list \<open>rpc.nodes\<close> and the main node. The result is the outcome
  of the view (the redirect target, or the exception that leaves it) with the new state.
\<close>

record registry =
  nodes :: "node list"
  main_node :: "node option"

definition set_rpchost :: "registry \<Rightarrow> string \<Rightarrow> string \<Rightarrow> string \<Rightarrow> string \<Rightarrow> (exn + string) \<times> registry" where
  "set_rpchost r bts_type host nm url =
     (case find_node (nodes r) bts_type host nm of
        Inr n \<Rightarrow> (Inr url, r\<lparr>main_node := Some n\<rparr>)
      | Inl (ValueError m) \<Rightarrow> (Inr url, r)
      | Inl e \<Rightarrow> (Inl e, r))"

section \<open>The RPC gateway: \<open>json_rpc_call\<close>\<close>

text \<open>
  \<open>rpc.rpc_call(host, port, user, password, method, *params, __graphene=True,
  raw_response=True)\<close> is the network channel to the client; it lives in \<open>rpcutils\<close>. A
  call is recorded as the request it was made with, and the channel is a function from the
  request to the raw response or the exception raised.
\<close>

record rpc_request =
  req_host :: string
  req_port :: json
  req_user :: string
  req_password :: string
  req_method :: json
  req_args :: "json list"
  req_graphene :: bool
  req_raw_response :: bool

type_synonym rpc_channel = "rpc_request \<Rightarrow> exn + json"

definition intercepted :: "string list" where
  "intercepted =
     [''is_signing_key_active'', ''network_get_info'', ''network_get_connected_peers'',
      ''network_get_potential_peers'', ''network_get_advanced_parameters'',
      ''network_set_advanced_parameters'']"

text \<open>\<open>method in [...]\<close>: a value that is not a string equals none of the names.\<close>

definition local_method :: "json \<Rightarrow> string option" where
  "local_method method =
     (case method of JStr m \<Rightarrow> (if m \<in> set intercepted then Some m else None) | _ \<Rightarrow> None)"

text \<open>The request \<open>rpc.rpc_call\<close> is called with: the node's own user and password.\<close>

definition forward_request :: "node \<Rightarrow> json \<Rightarrow> json \<Rightarrow> json list \<Rightarrow> rpc_request" where
  "forward_request n port method args =
     \<lparr>req_host = ''localhost'', req_port = port,
      req_user = rpc_user n, req_password = rpc_password n,
      req_method = method, req_args = args,
      req_graphene = True, req_raw_response = True\<rparr>"

text \<open>
  The body of the \<open>try\<close> block up to the assignment of \<open>result\<close>: the outcome and the list
  of calls made on the network channel.
\<close>

definition call_node ::
  "node list \<Rightarrow> rpc_channel \<Rightarrow> json \<Rightarrow> json \<Rightarrow> json \<Rightarrow> (exn + json) \<times> rpc_request list" where
  "call_node ns rpc_call port method params =
     (case find_local_node ns port of
        Inl e \<Rightarrow> (Inl e, [])
      | Inr n \<Rightarrow>
          (case local_method method of
             Some m \<Rightarrow>
               (case node_attr n m of
                  None \<Rightarrow> (Inl AttributeError, [])
                | Some f \<Rightarrow>
                    (case py_unpack params of
                       Inl e \<Rightarrow> (Inl e, [])
                     | Inr args \<Rightarrow>
                         (case f args of
                            Inl e \<Rightarrow> (Inl e, [])
                          | Inr v \<Rightarrow> (Inr (JObj [(''result'', v)]), []))))
           | None \<Rightarrow>
               (case py_unpack params of
                  Inl e \<Rightarrow> (Inl e, [])
                | Inr args \<Rightarrow>
                    (let req = forward_request n port method args
                     in (rpc_call req, [req])))))"

text \<open>The whole \<open>try\<close> block: \<open>result['id'] = c['id']\<close> evaluates \<open>c['id']\<close> first.\<close>

definition try_block ::
  "node list \<Rightarrow> rpc_channel \<Rightarrow> (string \<times> json) list \<Rightarrow> json \<Rightarrow> json \<Rightarrow> json
     \<Rightarrow> (exn + json) \<times> rpc_request list" where
  "try_block ns rpc_call c port method params =
     (case call_node ns rpc_call port method params of
        (Inl e, calls) \<Rightarrow> (Inl e, calls)
      | (Inr result, calls) \<Rightarrow>
          (case dict_get c ''id'' of
             Inl e \<Rightarrow> (Inl e, calls)
           | Inr i \<Rightarrow> (py_setitem_key result ''id'' i, calls)))"

definition error_envelope :: "json \<Rightarrow> string \<Rightarrow> json" where
  "error_envelope i msg = JObj [(''id'', i), (''error'', JObj [(''message'', JStr msg)])]"

text \<open>The two \<open>except\<close> clauses; any other exception leaves the view.\<close>

definition handle_errors ::
  "(string \<times> json) list \<Rightarrow> json \<Rightarrow> (exn + json) \<times> rpc_request list
     \<Rightarrow> (exn + json) \<times> rpc_request list" where
  "handle_errors c port r =
     (case r of
        (Inr result, calls) \<Rightarrow> (Inr result, calls)
      | (Inl (ValueError m), calls) \<Rightarrow>
          (case dict_get c ''id'' of
             Inl e \<Rightarrow> (Inl e, calls)
           | Inr i \<Rightarrow>
               (Inr (error_envelope i (''Could not find active node on port '' @ py_str port)),
                calls))
      | (Inl (RPCError m), calls) \<Rightarrow>
          (case dict_get c ''id'' of
             Inl e \<Rightarrow> (Inl e, calls)
           | Inr i \<Rightarrow> (Inr (error_envelope i m), calls))
      | (Inl e, calls) \<Rightarrow> (Inl e, calls))"

text \<open>
  The view on the parsed request body \<open>c\<close>, when it is a dictionary. The result is the
  dictionary handed to \<open>jsonify\<close> (or the exception that leaves the view) and the calls made
  on the network channel.
\<close>

definition json_rpc_call_dict ::
  "node list \<Rightarrow> rpc_channel \<Rightarrow> (string \<times> json) list \<Rightarrow> (exn + json) \<times> rpc_request list" where
  "json_rpc_call_dict ns rpc_call c =
     (case dict_get c ''params'' of
        Inl e \<Rightarrow> (Inl e, [])
      | Inr ps \<Rightarrow>
          (case py_getitem_idx ps 1 of
             Inl e \<Rightarrow> (Inl e, [])
           | Inr method \<Rightarrow>
               (case py_getitem_idx ps 2 of
                  Inl e \<Rightarrow> (Inl e, [])
                | Inr params \<Rightarrow>
                    (let (port, c1) = dict_pop c ''wallet_port'' JNull;
                         (proxy_user, c2) = dict_pop c1 ''proxy_user'' (JStr []);
                         (proxy_password, c3) = dict_pop c2 ''proxy_password'' (JStr [])
                     in handle_errors c3 port (try_block ns rpc_call c3 port method params)))))"

text \<open>A body that parses to anything but a dictionary fails at \<open>c['params']\<close>.\<close>

definition json_rpc_call :: "node list \<Rightarrow> rpc_channel \<Rightarrow> json \<Rightarrow> (exn + json) \<times> rpc_request list" where
  "json_rpc_call ns rpc_call c =
     (case c of JObj d \<Rightarrow> json_rpc_call_dict ns rpc_call d | _ \<Rightarrow> (Inl TypeError, []))"

text \<open>\<open>c.pop('wallet_port', None)\<close>: the port the envelope names.\<close>

definition envelope_port :: "(string \<times> json) list \<Rightarrow> json" where
  "envelope_port c = fst (dict_pop c ''wallet_port'' JNull)"

section \<open>The seed node prober\<close>

subsection \<open>\<open>check_seed_status\<close>\<close>

text \<open>\<open>s.split(':')\<close>: the pieces between the separators (one piece when there is none).\<close>

fun split_on :: "char \<Rightarrow> string \<Rightarrow> string list" where
  "split_on sep [] = [[]]"
| "split_on sep (ch # rest) =
     (if ch = sep then [] # split_on sep rest
      else (case split_on sep rest of [] \<Rightarrow> [[ch]] | p # ps \<Rightarrow> (ch # p) # ps))"

text \<open>
  \<open>int(s)\<close> on an optional sign followed by decimal digits; every other string is
  refused. (Python also accepts surrounding white space and underscores between digits; the
  seed lists of the view hold plain port numbers.)
\<close>

definition digit_val :: "char \<Rightarrow> nat option" where
  "digit_val ch =
     (if (48::nat) \<le> of_char ch \<and> (of_char ch :: nat) \<le> 57 then Some (of_char ch - 48) else None)"

fun digits_val :: "nat \<Rightarrow> string \<Rightarrow> nat option" where
  "digits_val acc [] = Some acc"
| "digits_val acc (ch # rest) =
     (case digit_val ch of None \<Rightarrow> None | Some d \<Rightarrow> digits_val (10 * acc + d) rest)"

definition py_int :: "string \<Rightarrow> int option" where
  "py_int s =
     (case s of
        [] \<Rightarrow> None
      | ch # rest \<Rightarrow>
          (if ch = CHR ''-'' then (if rest = [] then None else map_option (\<lambda>n. - int n) (digits_val 0 rest))
           else if ch = CHR ''+'' then (if rest = [] then None else map_option int (digits_val 0 rest))
           else map_option int (digits_val 0 s)))"

text \<open>
  What the peer at an address does to the one connection the probe opens. \<open>connect\<close> either
  succeeds or raises; \<open>recv(256)\<close> either returns the bytes that have arrived (none when the
  peer has closed the connection) or raises. \<open>ConnectionError\<close> stands for the class and its
  subclasses (refused, reset, aborted), \<open>SocketTimeout\<close> for \<open>socket.timeout\<close>, \<open>OSError\<close>
  for the other errors of the socket layer (name resolution, no route to the host).
\<close>

datatype sock_exn = ConnectionError | SocketTimeout | OSError

datatype connect_result = Accepts | ConnectRaises sock_exn

datatype recv_result = Sends string | RecvRaises sock_exn

record peer =
  peer_connect :: connect_result
  peer_recv :: recv_result

type_synonym network = "string \<Rightarrow> int \<Rightarrow> peer"

text \<open>The socket object \<open>s\<close>: its timeout in seconds, and whether it is connected and closed.\<close>

record sock =
  sock_timeout :: "nat option"
  sock_connected :: bool
  sock_closed :: bool

datatype probe_exn = ProbeValueError | ProbeSockError sock_exn

text \<open>
  The result of \<open>check_seed_status(seed)\<close> (the status string, or the exception that leaves
  the function) with the socket as the function leaves it (\<open>None\<close> when it fails before
  \<open>socket.socket()\<close>).
\<close>

definition check_seed_status :: "network \<Rightarrow> string \<Rightarrow> (probe_exn + string) \<times> sock option" where
  "check_seed_status net seed =
     (case split_on CHR '':'' seed of
        [host, port] \<Rightarrow>
          (let s = \<lparr>sock_timeout = Some 3, sock_connected = False, sock_closed = False\<rparr> in
           case py_int port of
             None \<Rightarrow> (Inl ProbeValueError, Some s)
           | Some p \<Rightarrow>
               (case peer_connect (net host p) of
                  ConnectRaises e \<Rightarrow>
                    (if e = ConnectionError \<or> e = SocketTimeout then (Inr ''offline'', Some s)
                     else (Inl (ProbeSockError e), Some s))
                | Accepts \<Rightarrow>
                    (let s1 = s\<lparr>sock_connected := True\<rparr> in
                     case peer_recv (net host p) of
                       RecvRaises e \<Rightarrow>
                         (if e = SocketTimeout then (Inr ''stuck'', Some s1)
                          else (Inl (ProbeSockError e), Some s1))
                     | Sends bytes \<Rightarrow> (Inr ''online'', Some (s1\<lparr>sock_closed := True\<rparr>)))))
      | _ \<Rightarrow> (Inl ProbeValueError, None))"

subsection \<open>\<open>split_columns\<close>\<close>

text \<open>
  \<open>split_columns(items, attrs)\<close> lays the items out in two columns: the first half on the
  left, the second half on the right, with an empty filler when their number is odd.
  \<open>attrs\<close> maps an attribute to cell positions (row, column), which move with the items.
\<close>

definition split_columns ::
  "(string \<times> string) list \<Rightarrow> (string \<times> (nat \<times> nat) list) list
     \<Rightarrow> (string \<times> string \<times> string \<times> string) list \<times> (string \<times> (nat \<times> nat) list) list" where
  "split_columns items attrs =
     (let items1 = (if length items mod 2 = 1 then items @ [([], [])] else items);
          offset = length items1 div 2
      in (map (\<lambda>(l, r). (fst l, snd l, fst r, snd r)) (zip (take offset items1) (drop offset items1)),
          map (\<lambda>(a, l). (a, map (\<lambda>(row, col). if row < offset then (row, col)
                                                 else (row - offset, col + 2)) l)) attrs))"

subsection \<open>\<open>view_seed_nodes\<close>\<close>

definition seed_nodes :: "string \<Rightarrow> string list" where
  "seed_nodes chain =
     (if chain = ''bts'' then
     [''faucet.bitshares.org:1776'', ''bitshares.openledger.info:1776'',
      ''bts-seed1.abit-more.com:62015'', ''seed.blocktrades.us:1776'',
      ''seed.bitsharesnodes.com:1776'', ''seed04.bitsharesnodes.com:1776'',
      ''seed05.bitsharesnodes.com:1776'', ''seed06.bitsharesnodes.com:1776'',
      ''seed07.bitsharesnodes.com:1776'', ''seed.cubeconnex.com:1777'',
      ''54.85.252.77:39705'', ''104.236.144.84:1777'', ''40.127.190.171:1777'',
      ''185.25.22.21:1776'', ''212.47.249.84:50696'', ''104.168.154.160:50696'',
      ''128.199.143.47:2015'']
      else if chain = ''muse'' then
     [''81.89.101.133:1777'', ''104.238.191.99:1781'', ''120.24.182.36:8091'',
      ''128.199.143.47:2017'', ''139.129.54.169:8091'', ''139.196.182.71:9091'',
      ''159.203.251.178:1776'', ''185.82.203.92:1974'', ''192.241.190.227:5197'',
      ''192.241.208.17:5197'', ''54.165.143.33:5197'', ''45.55.13.98:1776'',
      ''81.89.101.133:1777'']
      else if chain = ''steem'' then
     [''212.117.213.186:2016'', ''185.82.203.92:2001'', ''52.74.152.79:2001'',
      ''52.63.172.229:2001'', ''104.236.82.250:2001'', ''104.199.157.70:2001'',
      ''steem.kushed.com:2001'', ''steemd.pharesim.me:2001'', ''seed.steemnodes.com:2001'',
      ''steemseed.dele-puppy.com:2001'', ''seed.steemwitness.com:2001'',
      ''seed.steemed.net:2001'', ''steem-seed1.abit-more.com:2001'',
      ''steem.clawmap.com:2001'', ''52.62.24.225:2001'', ''steem-id.altexplorer.xyz:2001'',
      ''213.167.243.223:2001'', ''162.213.199.171:34191'', ''45.55.217.111:12150'',
      ''212.47.249.84:40696'', ''52.4.250.181:39705'', ''81.89.101.133:2001'',
      ''109.74.206.93:2001'', ''192.99.4.226:2001'', ''46.252.27.1:1337'']
      else [])"

definition btn_success :: string where
  \<open>btn_success = ''<div class="btn btn-xs btn-success">online</div>''\<close>

definition btn_warning :: string where
  \<open>btn_warning = ''<div class="btn btn-xs btn-warning">stuck</div>''\<close>

definition btn_danger :: "string \<Rightarrow> string" where
  \<open>btn_danger status = ''<div class="btn btn-xs btn-danger">'' @ status @ ''</div>''\<close>

text \<open>The list \<open>data\<close>: one row per seed, from the dictionary \<open>seed_status\<close> as it is read.\<close>

definition seed_row :: "(string \<rightharpoonup> string) \<Rightarrow> string \<Rightarrow> string \<times> string" where
  "seed_row seed_status seed =
     (if seed_status seed = Some ''online'' then (seed, btn_success)
      else if seed_status seed = Some ''stuck'' then (seed, btn_warning)
      else (seed, btn_danger (case seed_status seed of None \<Rightarrow> ''offline'' | Some st \<Rightarrow> st)))"

definition seed_data :: "string list \<Rightarrow> (string \<rightharpoonup> string) \<Rightarrow> (string \<times> string) list" where
  "seed_data seeds seed_status = map (seed_row seed_status) seeds"

text \<open>
  The view starts one thread per seed; thread \<open>i\<close> runs \<open>set_seed_status(seeds[i])\<close>, which
  stores the result of \<open>check_seed_status\<close> in the shared dictionary and ends (an exception
  of the probe ends the thread without storing anything). The main thread then joins the
  threads one after the other, each with a timeout of 5 seconds, and builds \<open>data\<close>.

  The state of this execution: the shared dictionary, the threads that have ended, the number
  of joins that have returned, and the threads that were still alive when their join
  returned (the join timed out).
\<close>

record probe_state =
  seed_status :: "string \<rightharpoonup> string"
  ended :: "nat set"
  joined :: nat
  join_timed_out :: "nat set"

definition init_state :: probe_state where
  "init_state = \<lparr>seed_status = Map.empty, ended = {}, joined = 0, join_timed_out = {}\<rparr>"

text \<open>
  The execution is an interleaving of two kinds of events: a thread ends, or the join the
  main thread is waiting in returns. A join with a timeout always returns: at once when the
  thread has ended, otherwise when the timeout expires. Times are not modelled, so a join
  may time out on any thread that has not ended.
\<close>

datatype event = ThreadEnds nat | JoinReturns

definition set_seed_status :: "network \<Rightarrow> string \<Rightarrow> (string \<rightharpoonup> string) \<Rightarrow> (string \<rightharpoonup> string)" where
  "set_seed_status net s m =
     (case fst (check_seed_status net s) of Inr st \<Rightarrow> m(s \<mapsto> st) | Inl e \<Rightarrow> m)"

fun step :: "network \<Rightarrow> string list \<Rightarrow> probe_state \<Rightarrow> event \<Rightarrow> probe_state option" where
  "step net seeds st (ThreadEnds i) =
     (if i < length seeds \<and> i \<notin> ended st
      then Some (st\<lparr>seed_status := set_seed_status net (seeds ! i) (seed_status st),
                    ended := insert i (ended st)\<rparr>)
      else None)"
| "step net seeds st JoinReturns =
     (if joined st < length seeds
      then Some (st\<lparr>joined := Suc (joined st),
                    join_timed_out := (if joined st \<in> ended st then join_timed_out st
                                       else insert (joined st) (join_timed_out st))\<rparr>)
      else None)"

fun run :: "network \<Rightarrow> string list \<Rightarrow> probe_state \<Rightarrow> event list \<Rightarrow> probe_state option" where
  "run net seeds st [] = Some st"
| "run net seeds st (e # es) =
     (case step net seeds st e of None \<Rightarrow> None | Some st' \<Rightarrow> run net seeds st' es)"

text \<open>
  The view on a list of seeds under a schedule of events: \<open>None\<close> when the schedule is not an
  execution of the view (an event that cannot happen, or a join still missing at its end),
  otherwise the final state and the list \<open>data\<close> built from it.
\<close>

definition probe_seeds ::
  "network \<Rightarrow> string list \<Rightarrow> event list \<Rightarrow> (probe_state \<times> (string \<times> string) list) option" where
  "probe_seeds net seeds sched =
     (case run net seeds init_state sched of
        None \<Rightarrow> None
      | Some st \<Rightarrow>
          (if joined st = length seeds then Some (st, seed_data seeds (seed_status st)) else None))"

definition view_seed_nodes ::
  "network \<Rightarrow> string \<Rightarrow> event list \<Rightarrow> (string \<times> string \<times> string \<times> string) list option" where
  "view_seed_nodes net chain sched =
     map_option (\<lambda>r. fst (split_columns (snd r) [])) (probe_seeds net (seed_nodes chain) sched)"

text \<open>
  What the view shows of an execution: the threads whose join timed out, and the rows.
\<close>

definition probe_report ::
  "network \<Rightarrow> string list \<Rightarrow> event list \<Rightarrow> (nat set \<times> (string \<times> string) list) option" where
  "probe_report net seeds sched =
     map_option (\<lambda>r. (join_timed_out (fst r), snd r)) (probe_seeds net seeds sched)"

text \<open>
  What holds in every state of an execution: the joins go through the threads in order, only
  joined threads can have timed out, only started threads end, every stored status is the
  result of a probe that has ended, and every probe that has ended with a result has stored
  it.
\<close>

definition probe_inv :: "network \<Rightarrow> string list \<Rightarrow> probe_state \<Rightarrow> bool" where
  "probe_inv net seeds st \<longleftrightarrow>
     joined st \<le> length seeds
     \<and> (\<forall>i \<in> join_timed_out st. i < joined st)
     \<and> (\<forall>i \<in> ended st. i < length seeds)
     \<and> (\<forall>s v. seed_status st s = Some v \<longrightarrow>
           (\<exists>i \<in> ended st. seeds ! i = s \<and> fst (check_seed_status net s) = Inr v))
     \<and> (\<forall>i \<in> ended st. \<forall>v. fst (check_seed_status net (seeds ! i)) = Inr v \<longrightarrow>
           seed_status st (seeds ! i) = Some v)"

section \<open>Example registries, channels and networks\<close>

text \<open>A local node that answers \<open>network_get_info\<close> itself, and a remote node.\<close>

definition nodeA :: node where
  "nodeA = \<lparr>node_bts_type = ''bts'', rpc_host = ''localhost'', rpc_port = 1234, name = ''nodeA'',
     rpc_user = ''alice'', rpc_password = ''secret'', node_is_localhost = True,
     node_attr = (\<lambda>m. if m = ''network_get_info''
                         then Some (\<lambda>args. Inr (JObj [(''listening_on'', JStr ''0.0.0.0:1776'')]))
                         else None)\<rparr>"

definition nodeB :: node where
  "nodeB = \<lparr>node_bts_type = ''muse'', rpc_host = ''10.0.0.2'', rpc_port = 8090, name = ''nodeB'',
     rpc_user = ''bob'', rpc_password = ''hunter2'', node_is_localhost = False,
     node_attr = (\<lambda>m. None)\<rparr>"

text \<open>A channel whose raw response carries an id of its own, and one that fails.\<close>

definition answering_channel :: rpc_channel where
  "answering_channel = (\<lambda>r. Inr (JObj [(''id'', JInt 1), (''result'', JStr ''pong'')]))"

definition failing_channel :: rpc_channel where
  "failing_channel = (\<lambda>r. Inl (RPCError ''Assert Exception''))"

text \<open>
  A network of five peers: one refuses the connection, one accepts and stays silent, one
  accepts and greets, one cannot be reached at all, one accepts and closes at once.
\<close>

definition example_net :: network where
  "example_net = (\<lambda>host port.
     if host = ''10.0.0.1'' then \<lparr>peer_connect = ConnectRaises ConnectionError, peer_recv = Sends []\<rparr>
     else if host = ''10.0.0.2'' then \<lparr>peer_connect = Accepts, peer_recv = RecvRaises SocketTimeout\<rparr>
     else if host = ''10.0.0.3'' then \<lparr>peer_connect = Accepts, peer_recv = Sends ''hello''\<rparr>
     else if host = ''10.0.0.5'' then \<lparr>peer_connect = Accepts, peer_recv = Sends []\<rparr>
     else \<lparr>peer_connect = ConnectRaises OSError, peer_recv = Sends []\<rparr>)"

text \<open>
  Envelopes: a call of an intercepted method on port 1234, a call of another method that also
  carries forwarding credentials, the same call with other credentials, a call on a port
  that no node has, a call that names no port, and an envelope without \<open>params\<close>.
\<close>

definition env_local :: "(string \<times> json) list" where
  "env_local = [(''id'', JInt 7), (''params'', JList [JInt 0, JStr ''network_get_info'', JList []]),
                (''wallet_port'', JInt 1234)]"

definition env_forward :: "(string \<times> json) list" where
  "env_forward = [(''id'', JInt 8), (''params'', JList [JInt 0, JStr ''info'', JList []]),
                  (''wallet_port'', JInt 1234),
                  (''proxy_user'', JStr ''mallory''), (''proxy_password'', JStr ''letmein'')]"

definition env_forward_other :: "(string \<times> json) list" where
  "env_forward_other = [(''id'', JInt 8), (''proxy_password'', JStr ''12345''),
                  (''params'', JList [JInt 0, JStr ''info'', JList []]),
                  (''wallet_port'', JInt 1234)]"

definition env_unknown_port :: "(string \<times> json) list" where
  "env_unknown_port = [(''id'', JInt 3), (''params'', JList [JInt 0, JStr ''info'', JList []]),
                       (''wallet_port'', JInt 9999)]"

definition env_no_port :: "(string \<times> json) list" where
  "env_no_port = [(''id'', JStr ''a1''), (''params'', JList [JInt 0, JStr ''info'', JList []])]"

definition env_no_params :: "(string \<times> json) list" where
  "env_no_params = [(''id'', JInt 3), (''wallet_port'', JInt 9999), (''method'', JStr ''info'')]"

section \<open>Properties of the registry\<close>


lemma find_node_loop_filter:
  "find_node_loop ns t h nm =
     (case filter (find_node_match t h nm) ns of [] \<Rightarrow> None | n # _ \<Rightarrow> Some n)"
  by (induction ns) simp_all

lemma find_local_loop_filter:
  "find_local_loop ns p = (case filter (find_local_match p) ns of [] \<Rightarrow> None | n # _ \<Rightarrow> Some n)"
  by (induction ns) simp_all

lemma find_node_match_unfold:
  "find_node_match t h nm =
     (\<lambda>n. node_bts_type n = t \<and> rpc_host n @ '':'' @ str_int (rpc_port n) = h \<and> name n = nm)"
  by (rule ext) (simp add: find_node_match_def)

lemma find_local_match_unfold:
  "find_local_match p = (\<lambda>n. node_is_localhost n \<and> py_eq_int (rpc_port n) p)"
  by (rule ext) (simp add: find_local_match_def)

text \<open>
  Claim C8. \<open>find_node(bts_type, host, name)\<close> goes through the registered nodes in
  registration order and returns the first node whose chain type, \<open>host:port\<close> string and
  name all equal the arguments; when no node matches it raises
  \<open>ValueError('Node not found: ...')\<close>. \<open>find_local_node(port)\<close> returns the first node
  that is on the local host and whose \<open>rpc_port\<close> equals the port (for an integer port this
  is equality of integers), and raises \<open>ValueError\<close> otherwise.
\<close>

theorem find_node_first_match:
  "find_node ns t h nm =
     (case filter (\<lambda>n. node_bts_type n = t \<and> rpc_host n @ '':'' @ str_int (rpc_port n) = h
                        \<and> name n = nm) ns of
        [] \<Rightarrow> Inl (ValueError (''Node not found: '' @ t @ ''/'' @ h @ ''/'' @ nm))
      | n # _ \<Rightarrow> Inr n)
   \<and> find_local_node ns p =
     (case filter (\<lambda>n. node_is_localhost n \<and> py_eq_int (rpc_port n) p) ns of
        [] \<Rightarrow> Inl (ValueError (''Node not found: localhost:'' @ py_str p))
      | n # _ \<Rightarrow> Inr n)
   \<and> py_eq_int q (JInt i) = (q = i)"
proof (intro conjI)
  show "find_node ns t h nm =
     (case filter (\<lambda>n. node_bts_type n = t \<and> rpc_host n @ '':'' @ str_int (rpc_port n) = h
                        \<and> name n = nm) ns of
        [] \<Rightarrow> Inl (ValueError (''Node not found: '' @ t @ ''/'' @ h @ ''/'' @ nm))
      | n # _ \<Rightarrow> Inr n)"
    unfolding find_node_def find_node_loop_filter find_node_match_unfold
    by (simp split: list.splits)
  show "find_local_node ns p =
     (case filter (\<lambda>n. node_is_localhost n \<and> py_eq_int (rpc_port n) p) ns of
        [] \<Rightarrow> Inl (ValueError (''Node not found: localhost:'' @ py_str p))
      | n # _ \<Rightarrow> Inr n)"
    unfolding find_local_node_def find_local_loop_filter find_local_match_unfold
    by (simp split: list.splits)
  show "py_eq_int q (JInt i) = (q = i)"
    by (simp add: py_eq_int_def)
qed

end
